theory Spec2Isabelle
  imports Main
begin

section \<open>The install prompt component and its environment\<close>

text \<open>
  The component \<open>InstallPrompt\<close> (InstallPrompt.js) is a React function component. Its
  behaviour is the behaviour of its handlers on three kinds of data: the component state
  (\<open>showPrompt\<close>, \<open>deferredPrompt\<close>), the two constants its mount effect reads from
  \<open>localStorage\<close> (\<open>promptDismissed\<close>, \<open>alreadyInstalled\<close>), and the page that hosts
  it (\<open>localStorage\<close>, the timers created with \<open>setTimeout\<close>, the continuations
  suspended at \<open>await\<close>, the clock). Time is in milliseconds.
\<close>

subsection \<open>Data\<close>

text \<open>A \<open>beforeinstallprompt\<close> event object, by identity.\<close>

type_synonym signal = nat

text \<open>What the handlers do to the outside, apart from storage and timers.\<close>

datatype output_event =
  PreventDefault signal
  | Prompt signal
  | Alert string
  | ConsoleLog string

text \<open>The two callbacks the component passes to \<open>setTimeout\<close> (lines 31 and 92).\<close>

datatype timer_action = ShowPrompt | RemoveDismissed

text \<open>
  A pending timer: the time it fires, the component instance whose closure the callback
  is, and the callback.
\<close>

record timer =
  due :: nat
  owner :: nat
  action :: timer_action

text \<open>
  \<open>inst\<close> numbers the component instances of the page; \<open>mounted\<close> says that the
  instance \<open>inst\<close> is alive, \<open>listening\<close> that its two listeners are registered on
  \<open>window\<close>. \<open>pending\<close> holds the continuations of \<open>handleInstallClick\<close> suspended at
  \<open>await deferredPrompt.userChoice\<close>: the instance and the event awaited.
\<close>

record state =
  storage :: "string \<rightharpoonup> string"
  clock :: nat
  timers :: "timer list"
  pending :: "(nat \<times> signal) list"
  effects :: "output_event list"
  inst :: nat
  mounted :: bool
  listening :: bool
  showPrompt :: bool
  deferredPrompt :: "signal option"
  promptDismissed :: "string option"
  alreadyInstalled :: "string option"

subsection \<open>Storage, truthiness, timers, state setters\<close>

text \<open>
  \<open>localStorage.getItem\<close> returns \<open>null\<close> or a string; \<open>!v\<close> is true for \<open>null\<close> and
  for the empty string.
\<close>

fun truthy :: "string option \<Rightarrow> bool" where
  "truthy None = False"
| "truthy (Some v) = (v \<noteq> [])"

definition dismissedKey :: string where
  "dismissedKey = ''installPromptDismissed''"

definition installedKey :: string where
  "installedKey = ''appInstalled''"

definition getItem :: "string \<Rightarrow> state \<Rightarrow> string option" where
  "getItem k s = storage s k"

definition setItem :: "string \<Rightarrow> string \<Rightarrow> state \<Rightarrow> state" where
  "setItem k v s = s\<lparr>storage := (storage s)(k \<mapsto> v)\<rparr>"

definition removeItem :: "string \<Rightarrow> state \<Rightarrow> state" where
  "removeItem k s = s\<lparr>storage := (storage s)(k := None)\<rparr>"

text \<open>The persisted flags of the specification.\<close>

definition installed :: "state \<Rightarrow> bool" where
  "installed s = truthy (getItem installedKey s)"

definition dismissed :: "state \<Rightarrow> bool" where
  "dismissed s = truthy (getItem dismissedKey s)"

definition emit :: "output_event \<Rightarrow> state \<Rightarrow> state" where
  "emit x s = s\<lparr>effects := effects s @ [x]\<rparr>"

definition console_log :: "string \<Rightarrow> state \<Rightarrow> state" where
  "console_log m s = emit (ConsoleLog m) s"

text \<open>\<open>setTimeout(callback, delay)\<close>, called by the current instance.\<close>

definition setTimeout :: "timer_action \<Rightarrow> nat \<Rightarrow> state \<Rightarrow> state" where
  "setTimeout a delay s =
     s\<lparr>timers := timers s @ [\<lparr>due = clock s + delay, owner = inst s, action = a\<rparr>]\<rparr>"

text \<open>
  A state setter called from a timer callback or from a continuation belongs to the
  instance \<open>i\<close> that created the callback. React ignores it once that instance is
  unmounted.
\<close>

definition setShowPrompt :: "nat \<Rightarrow> bool \<Rightarrow> state \<Rightarrow> state" where
  "setShowPrompt i v s = (if mounted s \<and> inst s = i then s\<lparr>showPrompt := v\<rparr> else s)"

definition setDeferredPrompt :: "nat \<Rightarrow> signal option \<Rightarrow> state \<Rightarrow> state" where
  "setDeferredPrompt i v s = (if mounted s \<and> inst s = i then s\<lparr>deferredPrompt := v\<rparr> else s)"

text \<open>Line 97: the banner is rendered only while \<open>showPrompt\<close> is true.\<close>

definition visible :: "state \<Rightarrow> bool" where
  "visible s = (mounted s \<and> showPrompt s)"

text \<open>The banner of instance \<open>i\<close> is on screen; the signal instance \<open>i\<close> holds.\<close>

definition visible_of :: "nat \<Rightarrow> state \<Rightarrow> bool" where
  "visible_of i s = (mounted s \<and> inst s = i \<and> showPrompt s)"

definition held_by :: "nat \<Rightarrow> state \<Rightarrow> signal option" where
  "held_by i s = (if mounted s \<and> inst s = i then deferredPrompt s else None)"

subsection \<open>The mount effect and its handlers (lines 16 to 56)\<close>

text \<open>Lines 22 to 35. The handler runs in the instance that registered it.\<close>

definition handleBeforeInstallPrompt :: "signal \<Rightarrow> state \<Rightarrow> state" where
  "handleBeforeInstallPrompt e s =
     (let s1 = emit (PreventDefault e) s;
          s2 = s1\<lparr>deferredPrompt := Some e\<rparr>
      in if \<not> truthy (promptDismissed s2) \<and> \<not> truthy (alreadyInstalled s2)
         then setTimeout ShowPrompt 1000 s2
         else s2)"

text \<open>Lines 38 to 42.\<close>

definition handleAppInstalled :: "state \<Rightarrow> state" where
  "handleAppInstalled s =
     (setItem installedKey ''true'' (console_log ''PWA was installed'' s))\<lparr>showPrompt := False\<rparr>"

text \<open>
  The body of the effect, lines 18 to 50: the two reads, the two listeners, the
  display-mode check. \<open>standalone\<close> is the result of
  \<open>window.matchMedia('(display-mode: standalone)').matches\<close>.
\<close>

definition useEffect_mount :: "bool \<Rightarrow> state \<Rightarrow> state" where
  "useEffect_mount standalone s =
     (let s1 = s\<lparr>promptDismissed := getItem dismissedKey s,
                  alreadyInstalled := getItem installedKey s\<rparr>;
          s2 = s1\<lparr>listening := True\<rparr>
      in if standalone then setItem installedKey ''true'' s2 else s2)"

text \<open>The cleanup the effect returns, lines 52 to 55: it removes the two listeners.\<close>

definition useEffect_cleanup :: "state \<Rightarrow> state" where
  "useEffect_cleanup s = s\<lparr>listening := False\<rparr>"

text \<open>
  Mounting creates a new instance with the initial state of lines 13 and 14 and runs the
  effect; unmounting runs the cleanup and ends the instance.
\<close>

definition mount :: "bool \<Rightarrow> state \<Rightarrow> state" where
  "mount standalone s =
     useEffect_mount standalone
       (s\<lparr>inst := Suc (inst s), mounted := True, showPrompt := False, deferredPrompt := None\<rparr>)"

definition unmount :: "state \<Rightarrow> state" where
  "unmount s = (useEffect_cleanup s)\<lparr>mounted := False\<rparr>"

subsection \<open>The click handlers (lines 58 to 95)\<close>

text \<open>
  The text of the alert, lines 61 to 65, in UTF-8: the circled plus is E2 8A 95, the
  arrow is E2 86 92.
\<close>

definition manual_install_instructions :: string where
  "manual_install_instructions =
     ''To install:'' @ [CHR 0x0A, CHR 0x0A] @
     ''Chrome/Edge: Click the install icon ('' @ [CHR 0xE2, CHR 0x8A, CHR 0x95] @
     '') in the address bar'' @ [CHR 0x0A] @
     ''Safari (iOS): Tap Share '' @ [CHR 0xE2, CHR 0x86, CHR 0x92] @
     '' Add to Home Screen'' @ [CHR 0x0A] @
     ''Android: Tap menu '' @ [CHR 0xE2, CHR 0x86, CHR 0x92] @ '' Install App''"

text \<open>
  \<open>handleInstallClick\<close> up to its \<open>await\<close> (lines 59 to 73): without a deferred event
  it alerts and returns; with one it calls \<open>prompt()\<close> and suspends on \<open>userChoice\<close>.
\<close>

definition handleInstallClick :: "state \<Rightarrow> state" where
  "handleInstallClick s =
     (case deferredPrompt s of
        None \<Rightarrow> emit (Alert manual_install_instructions) s
      | Some e \<Rightarrow> (emit (Prompt e) s)\<lparr>pending := pending s @ [(inst s, e)]\<rparr>)"

text \<open>
  \<open>handleInstallClick\<close> after its \<open>await\<close> (lines 75 to 84), for the instance \<open>i\<close> that
  was suspended and the outcome the promise resolved with.
\<close>

definition handleInstallClick_resume :: "nat \<Rightarrow> string \<Rightarrow> state \<Rightarrow> state" where
  "handleInstallClick_resume i outcome s =
     (let s1 = (if outcome = ''accepted''
                then setItem installedKey ''true''
                       (console_log ''User accepted the install prompt'' s)
                else console_log ''User dismissed the install prompt'' s)
      in setShowPrompt i False (setDeferredPrompt i None s1))"

text \<open>Lines 87 to 95; the delay is \<open>7 * 24 * 60 * 60 * 1000\<close>.\<close>

definition cooldown :: nat where
  "cooldown = 7 * 24 * 60 * 60 * 1000"

definition handleDismiss :: "state \<Rightarrow> state" where
  "handleDismiss s =
     setTimeout RemoveDismissed cooldown (setItem dismissedKey ''true'' (s\<lparr>showPrompt := False\<rparr>))"

subsection \<open>The page: timers firing, promises resolving, reload\<close>

text \<open>The two timer callbacks, lines 32 and 93.\<close>

definition fire :: "timer \<Rightarrow> state \<Rightarrow> state" where
  "fire tm s =
     (case action tm of
        ShowPrompt \<Rightarrow> setShowPrompt (owner tm) True s
      | RemoveDismissed \<Rightarrow> removeItem dismissedKey s)"

text \<open>
  \<open>d\<close> milliseconds pass: the timers that are due fire, earliest first, in creation order
  among equals. No callback creates a timer.
\<close>

definition advance :: "nat \<Rightarrow> state \<Rightarrow> state" where
  "advance d s =
     (let t = clock s + d;
          ready = filter (\<lambda>tm. due tm \<le> t) (timers s);
          rest = filter (\<lambda>tm. \<not> due tm \<le> t) (timers s)
      in fold fire (sort_key due ready) (s\<lparr>clock := t, timers := rest\<rparr>))"

text \<open>
  The \<open>userChoice\<close> promise of event \<open>e\<close> resolves with \<open>outcome\<close>: every continuation
  suspended on it runs, in order.
\<close>

definition userChoice :: "signal \<Rightarrow> string \<Rightarrow> state \<Rightarrow> state" where
  "userChoice e outcome s =
     fold (\<lambda>p. handleInstallClick_resume (fst p) outcome)
       (filter (\<lambda>p. snd p = e) (pending s))
       (s\<lparr>pending := filter (\<lambda>p. snd p \<noteq> e) (pending s)\<rparr>)"

text \<open>
  The page is closed or reloaded: timers and continuations are gone with it, the
  instance is gone, \<open>localStorage\<close> stays.
\<close>

definition reload :: "state \<Rightarrow> state" where
  "reload s = s\<lparr>timers := [], pending := [], mounted := False, listening := False\<rparr>"

subsection \<open>Events and runs\<close>

datatype event =
  Mount bool
  | Unmount
  | Reload
  | BeforeInstallPrompt signal
  | AppInstalled
  | InstallClick
  | UserChoice signal string
  | DismissClick
  | Advance nat

text \<open>
  The window events reach the handlers while the listeners are registered; the two
  buttons exist while the banner is rendered.
\<close>

fun step :: "event \<Rightarrow> state \<Rightarrow> state" where
  "step (Mount standalone) s = (if mounted s then s else mount standalone s)"
| "step Unmount s = (if mounted s then unmount s else s)"
| "step Reload s = reload s"
| "step (BeforeInstallPrompt e) s = (if listening s then handleBeforeInstallPrompt e s else s)"
| "step AppInstalled s = (if listening s then handleAppInstalled s else s)"
| "step InstallClick s = (if visible s then handleInstallClick s else s)"
| "step (UserChoice e outcome) s = userChoice e outcome s"
| "step DismissClick s = (if visible s then handleDismiss s else s)"
| "step (Advance d) s = advance d s"

definition run :: "event list \<Rightarrow> state \<Rightarrow> state" where
  "run es s = fold step es s"

text \<open>A freshly loaded page over a given \<open>localStorage\<close>, before the component mounts.\<close>

definition initial :: "(string \<rightharpoonup> string) \<Rightarrow> state" where
  "initial st =
     \<lparr>storage = st, clock = 0, timers = [], pending = [], effects = [], inst = 0,
      mounted = False, listening = False, showPrompt = False, deferredPrompt = None,
      promptDismissed = None, alreadyInstalled = None\<rparr>"

fun is_Mount :: "event \<Rightarrow> bool" where
  "is_Mount (Mount _) = True"
| "is_Mount _ = False"

text \<open>The events that end the wait on the \<open>userChoice\<close> of event \<open>e\<close>.\<close>

fun ends_wait :: "signal \<Rightarrow> event \<Rightarrow> bool" where
  "ends_wait e (UserChoice e' _) = (e' = e)"
| "ends_wait e Reload = True"
| "ends_wait e _ = False"

subsection \<open>Invariants\<close>

text \<open>No timer belongs to an instance that does not exist yet.\<close>

definition timers_known :: "state \<Rightarrow> bool" where
  "timers_known s = (\<forall>tm\<in>set (timers s). owner tm \<le> inst s)"

text \<open>
  The instance read a set flag when it mounted: its banner is down and none of its
  timers will raise it.
\<close>

definition quiet :: "state \<Rightarrow> bool" where
  "quiet s =
     (timers_known s \<and>
      (listening s \<longrightarrow> truthy (promptDismissed s) \<or> truthy (alreadyInstalled s)) \<and>
      (mounted s \<longrightarrow> \<not> showPrompt s \<and>
         (\<forall>tm\<in>set (timers s). action tm = ShowPrompt \<longrightarrow> owner tm \<noteq> inst s)))"

text \<open>
  A page with empty storage on which the component has mounted, event 1 has arrived and
  the banner has come up a second later.
\<close>

definition banner_shown :: state where
  "banner_shown = run [Mount False, BeforeInstallPrompt 1, Advance 1000] (initial Map.empty)"

text \<open>
  A page on which the banner is up while no signal is held. Event 1 brings the banner up
  at 1000 ms and the user clicks the install button; event 2 arrives during the native
  prompt and starts its own timer; the user declines, which clears the signal and hides
  the banner; at 2000 ms the timer of event 2 brings the banner up again.
\<close>

definition banner_without_signal :: state where
  "banner_without_signal =
     run [Mount False, BeforeInstallPrompt 1, Advance 1000, InstallClick,
          BeforeInstallPrompt 2, UserChoice 1 ''dismissed'', Advance 1000]
       (initial Map.empty)"

section \<open>Basic facts\<close>

lemma cooldown_ms: "cooldown = 604800000"
  by (simp add: cooldown_def)

lemma keys_differ [simp]: "installedKey \<noteq> dismissedKey" "dismissedKey \<noteq> installedKey"
  by (simp_all add: installedKey_def dismissedKey_def)

lemmas handler_defs =
  handleBeforeInstallPrompt_def handleAppInstalled_def handleInstallClick_def
  handleDismiss_def mount_def unmount_def useEffect_mount_def useEffect_cleanup_def
  reload_def setTimeout_def setItem_def removeItem_def getItem_def emit_def console_log_def

lemmas eval_defs =
  run_def initial_def banner_shown_def handler_defs advance_def fire_def userChoice_def
  handleInstallClick_resume_def setShowPrompt_def setDeferredPrompt_def
  installed_def dismissed_def visible_def visible_of_def held_by_def
  installedKey_def dismissedKey_def cooldown_def

subsection \<open>What firing timers and resuming continuations change\<close>

lemma fire_frame [simp]:
  "mounted (fire tm s) = mounted s"
  "inst (fire tm s) = inst s"
  "listening (fire tm s) = listening s"
  "clock (fire tm s) = clock s"
  "timers (fire tm s) = timers s"
  "pending (fire tm s) = pending s"
  "effects (fire tm s) = effects s"
  "deferredPrompt (fire tm s) = deferredPrompt s"
  "promptDismissed (fire tm s) = promptDismissed s"
  "alreadyInstalled (fire tm s) = alreadyInstalled s"
  by (simp_all add: fire_def setShowPrompt_def removeItem_def split: timer_action.split)

lemma fire_showPrompt [simp]:
  "showPrompt (fire tm s) =
     (showPrompt s \<or> (mounted s \<and> action tm = ShowPrompt \<and> owner tm = inst s))"
  by (auto simp add: fire_def setShowPrompt_def removeItem_def split: timer_action.split)

lemma fire_storage [simp]:
  "storage (fire tm s) =
     (if action tm = RemoveDismissed then (storage s)(dismissedKey := None) else storage s)"
  by (simp add: fire_def setShowPrompt_def removeItem_def split: timer_action.split)

lemma fold_fire_frame [simp]:
  "mounted (fold fire tms s) = mounted s"
  "inst (fold fire tms s) = inst s"
  "listening (fold fire tms s) = listening s"
  "clock (fold fire tms s) = clock s"
  "timers (fold fire tms s) = timers s"
  "pending (fold fire tms s) = pending s"
  "effects (fold fire tms s) = effects s"
  "deferredPrompt (fold fire tms s) = deferredPrompt s"
  "promptDismissed (fold fire tms s) = promptDismissed s"
  "alreadyInstalled (fold fire tms s) = alreadyInstalled s"
  by (induction tms arbitrary: s; simp)+

lemma fold_fire_showPrompt:
  "showPrompt (fold fire tms s) =
     (showPrompt s \<or> (mounted s \<and> (\<exists>tm\<in>set tms. action tm = ShowPrompt \<and> owner tm = inst s)))"
  by (induction tms arbitrary: s) auto

lemma fold_fire_storage:
  "storage (fold fire tms s) =
     (if \<exists>tm\<in>set tms. action tm = RemoveDismissed
      then (storage s)(dismissedKey := None) else storage s)"
  by (induction tms arbitrary: s) auto

lemma advance_frame [simp]:
  "mounted (advance d s) = mounted s"
  "inst (advance d s) = inst s"
  "listening (advance d s) = listening s"
  "clock (advance d s) = clock s + d"
  "timers (advance d s) = filter (\<lambda>tm. \<not> due tm \<le> clock s + d) (timers s)"
  "pending (advance d s) = pending s"
  "effects (advance d s) = effects s"
  "deferredPrompt (advance d s) = deferredPrompt s"
  "promptDismissed (advance d s) = promptDismissed s"
  "alreadyInstalled (advance d s) = alreadyInstalled s"
  by (simp_all add: advance_def Let_def)

lemma advance_showPrompt:
  "showPrompt (advance d s) =
     (showPrompt s \<or>
      (mounted s \<and> (\<exists>tm\<in>set (timers s).
          due tm \<le> clock s + d \<and> action tm = ShowPrompt \<and> owner tm = inst s)))"
  by (auto simp add: advance_def Let_def fold_fire_showPrompt)

lemma advance_storage:
  "storage (advance d s) =
     (if \<exists>tm\<in>set (timers s). due tm \<le> clock s + d \<and> action tm = RemoveDismissed
      then (storage s)(dismissedKey := None) else storage s)"
  by (auto simp add: advance_def Let_def fold_fire_storage)

lemma resume_frame [simp]:
  "mounted (handleInstallClick_resume i outcome s) = mounted s"
  "inst (handleInstallClick_resume i outcome s) = inst s"
  "listening (handleInstallClick_resume i outcome s) = listening s"
  "clock (handleInstallClick_resume i outcome s) = clock s"
  "timers (handleInstallClick_resume i outcome s) = timers s"
  "pending (handleInstallClick_resume i outcome s) = pending s"
  "promptDismissed (handleInstallClick_resume i outcome s) = promptDismissed s"
  "alreadyInstalled (handleInstallClick_resume i outcome s) = alreadyInstalled s"
  by (simp_all add: handleInstallClick_resume_def setShowPrompt_def setDeferredPrompt_def
      setItem_def console_log_def emit_def Let_def)

lemma resume_showPrompt [simp]:
  "showPrompt (handleInstallClick_resume i outcome s) =
     (showPrompt s \<and> \<not> (mounted s \<and> inst s = i))"
  by (auto simp add: handleInstallClick_resume_def setShowPrompt_def setDeferredPrompt_def
      setItem_def console_log_def emit_def Let_def)

lemma resume_deferredPrompt [simp]:
  "deferredPrompt (handleInstallClick_resume i outcome s) =
     (if mounted s \<and> inst s = i then None else deferredPrompt s)"
  by (auto simp add: handleInstallClick_resume_def setShowPrompt_def setDeferredPrompt_def
      setItem_def console_log_def emit_def Let_def)

lemma resume_storage [simp]:
  "storage (handleInstallClick_resume i outcome s) =
     (if outcome = ''accepted'' then (storage s)(installedKey \<mapsto> ''true'') else storage s)"
  by (auto simp add: handleInstallClick_resume_def setShowPrompt_def setDeferredPrompt_def
      setItem_def console_log_def emit_def Let_def)

lemma fold_resume_frame [simp]:
  "mounted (fold (\<lambda>p. handleInstallClick_resume (fst p) outcome) ps s) = mounted s"
  "inst (fold (\<lambda>p. handleInstallClick_resume (fst p) outcome) ps s) = inst s"
  "listening (fold (\<lambda>p. handleInstallClick_resume (fst p) outcome) ps s) = listening s"
  "clock (fold (\<lambda>p. handleInstallClick_resume (fst p) outcome) ps s) = clock s"
  "timers (fold (\<lambda>p. handleInstallClick_resume (fst p) outcome) ps s) = timers s"
  "pending (fold (\<lambda>p. handleInstallClick_resume (fst p) outcome) ps s) = pending s"
  "promptDismissed (fold (\<lambda>p. handleInstallClick_resume (fst p) outcome) ps s) = promptDismissed s"
  "alreadyInstalled (fold (\<lambda>p. handleInstallClick_resume (fst p) outcome) ps s) = alreadyInstalled s"
  by (induction ps arbitrary: s; simp)+

lemma fold_resume_showPrompt:
  "showPrompt (fold (\<lambda>p. handleInstallClick_resume (fst p) outcome) ps s) =
     (showPrompt s \<and> \<not> (mounted s \<and> (\<exists>p\<in>set ps. fst p = inst s)))"
  by (induction ps arbitrary: s) auto

lemma fold_resume_deferredPrompt:
  "deferredPrompt (fold (\<lambda>p. handleInstallClick_resume (fst p) outcome) ps s) =
     (if mounted s \<and> (\<exists>p\<in>set ps. fst p = inst s) then None else deferredPrompt s)"
  by (induction ps arbitrary: s) auto

lemma fold_resume_storage:
  "storage (fold (\<lambda>p. handleInstallClick_resume (fst p) outcome) ps s) =
     (if ps \<noteq> [] \<and> outcome = ''accepted''
      then (storage s)(installedKey \<mapsto> ''true'') else storage s)"
  by (induction ps arbitrary: s) auto

lemma userChoice_frame [simp]:
  "mounted (userChoice e outcome s) = mounted s"
  "inst (userChoice e outcome s) = inst s"
  "listening (userChoice e outcome s) = listening s"
  "clock (userChoice e outcome s) = clock s"
  "timers (userChoice e outcome s) = timers s"
  "pending (userChoice e outcome s) = filter (\<lambda>p. snd p \<noteq> e) (pending s)"
  "promptDismissed (userChoice e outcome s) = promptDismissed s"
  "alreadyInstalled (userChoice e outcome s) = alreadyInstalled s"
  by (simp_all add: userChoice_def)

lemma userChoice_showPrompt:
  "showPrompt (userChoice e outcome s) =
     (showPrompt s \<and> \<not> (mounted s \<and> (inst s, e) \<in> set (pending s)))"
  by (auto simp add: userChoice_def fold_resume_showPrompt)

lemma userChoice_deferredPrompt:
  "deferredPrompt (userChoice e outcome s) =
     (if mounted s \<and> (inst s, e) \<in> set (pending s) then None else deferredPrompt s)"
  by (auto simp add: userChoice_def fold_resume_deferredPrompt)

lemma userChoice_storage:
  "storage (userChoice e outcome s) =
     (if (\<exists>i. (i, e) \<in> set (pending s)) \<and> outcome = ''accepted''
      then (storage s)(installedKey \<mapsto> ''true'') else storage s)"
  by (auto simp add: userChoice_def fold_resume_storage filter_empty_conv)

subsection \<open>Invariants of the page\<close>

lemma timers_known_initial: "timers_known (initial st)"
  by (simp add: timers_known_def initial_def)

lemma timers_known_step: "timers_known s \<Longrightarrow> timers_known (step ev s)"
  by (cases ev) (auto simp add: timers_known_def handler_defs Let_def split: option.split)

lemma timers_known_run: "timers_known s \<Longrightarrow> timers_known (run es s)"
  unfolding run_def by (induction es arbitrary: s) (simp_all add: timers_known_step)

lemma timers_known_reachable: "timers_known (run es (initial st))"
  by (simp add: timers_known_run timers_known_initial)

text \<open>The component never removes the installed flag.\<close>

lemma installed_step: "installed s \<Longrightarrow> installed (step ev s)"
  by (cases ev)
    (auto simp add: installed_def handler_defs Let_def advance_storage userChoice_storage
      split: option.split)

lemma installed_mount: "installed s \<Longrightarrow> installed (mount sa s)"
  by (auto simp add: installed_def handler_defs Let_def)

lemma quiet_not_visible: "quiet s \<Longrightarrow> \<not> visible s"
  by (auto simp add: quiet_def visible_def)

lemma quiet_step: "quiet s \<Longrightarrow> \<not> is_Mount ev \<Longrightarrow> quiet (step ev s)"
  by (cases ev)
    (auto simp add: quiet_def timers_known_def visible_def handler_defs Let_def
      advance_showPrompt userChoice_showPrompt split: option.split)

lemma quiet_mount:
  "timers_known s \<Longrightarrow> dismissed s \<or> installed s \<Longrightarrow> quiet (mount sa s)"
  by (auto simp add: quiet_def timers_known_def dismissed_def installed_def handler_defs Let_def)

lemma quiet_run: "quiet s \<Longrightarrow> \<forall>ev\<in>set es. \<not> is_Mount ev \<Longrightarrow> quiet (run es s)"
  unfolding run_def by (induction es arbitrary: s) (simp_all add: quiet_step)

lemma quiet_installed_step:
  "quiet s \<and> installed s \<Longrightarrow> quiet (step ev s) \<and> installed (step ev s)"
proof (cases "is_Mount ev")
  case False
  assume "quiet s \<and> installed s"
  with False show ?thesis by (simp add: quiet_step installed_step)
next
  case True
  assume a: "quiet s \<and> installed s"
  from True obtain sa where ev: "ev = Mount sa" by (cases ev) simp_all
  from a have "timers_known s" by (simp add: quiet_def)
  with a have "quiet (mount sa s)" by (simp add: quiet_mount)
  with a ev show ?thesis using installed_step [of s ev] by simp
qed

lemma quiet_installed_run:
  "quiet s \<and> installed s \<Longrightarrow> quiet (run es s) \<and> installed (run es s)"
  unfolding run_def
proof (induction es arbitrary: s)
  case Nil
  then show ?case by simp
next
  case (Cons ev es)
  from Cons.prems have "quiet (step ev s) \<and> installed (step ev s)"
    by (rule quiet_installed_step)
  then show ?case using Cons.IH by simp
qed

subsection \<open>Suspended continuations and the values read at mount\<close>

lemma pending_step:
  "(i, e) \<in> set (pending s) \<Longrightarrow> \<not> ends_wait e ev \<Longrightarrow> (i, e) \<in> set (pending (step ev s))"
  by (cases ev) (auto simp add: handler_defs Let_def split: option.split)

lemma pending_run:
  "(i, e) \<in> set (pending s) \<Longrightarrow> \<forall>ev\<in>set es. \<not> ends_wait e ev \<Longrightarrow>
   (i, e) \<in> set (pending (run es s))"
  unfolding run_def by (induction es arbitrary: s) (simp_all add: pending_step)

lemma handleInstallClick_pending:
  "deferredPrompt s = Some e \<Longrightarrow> (inst s, e) \<in> set (pending (handleInstallClick s))"
  by (simp add: handleInstallClick_def emit_def)

lemma suspended:
  assumes "deferredPrompt s = Some e" and "\<forall>ev\<in>set es. \<not> ends_wait e ev"
  shows "(inst s, e) \<in> set (pending (run es (handleInstallClick s)))"
  using assms by (simp add: pending_run handleInstallClick_pending)

lemma snapshot_step:
  "\<not> is_Mount ev \<Longrightarrow>
   promptDismissed (step ev s) = promptDismissed s \<and>
   alreadyInstalled (step ev s) = alreadyInstalled s"
  by (cases ev) (auto simp add: handler_defs Let_def split: option.split)

lemma snapshot_run:
  "\<forall>ev\<in>set es. \<not> is_Mount ev \<Longrightarrow>
   promptDismissed (run es s) = promptDismissed s \<and>
   alreadyInstalled (run es s) = alreadyInstalled s"
  unfolding run_def by (induction es arbitrary: s) (simp_all add: snapshot_step)

lemma snapshot_mount:
  "promptDismissed (mount sa s) = getItem dismissedKey s"
  "alreadyInstalled (mount sa s) = getItem installedKey s"
  by (simp_all add: handler_defs Let_def)

lemma handleBeforeInstallPrompt_timers:
  "timers (handleBeforeInstallPrompt e s) =
     (if \<not> truthy (promptDismissed s) \<and> \<not> truthy (alreadyInstalled s)
      then timers s @ [\<lparr>due = clock s + 1000, owner = inst s, action = ShowPrompt\<rparr>]
      else timers s)"
  by (simp add: handler_defs Let_def)

lemma handleBeforeInstallPrompt_frame:
  "mounted (handleBeforeInstallPrompt e s) = mounted s"
  "inst (handleBeforeInstallPrompt e s) = inst s"
  "clock (handleBeforeInstallPrompt e s) = clock s"
  "showPrompt (handleBeforeInstallPrompt e s) = showPrompt s"
  "storage (handleBeforeInstallPrompt e s) = storage s"
  "deferredPrompt (handleBeforeInstallPrompt e s) = Some e"
  by (simp_all add: handler_defs Let_def)

lemma handleDismiss_fields:
  "timers (handleDismiss s) =
     timers s @ [\<lparr>due = clock s + cooldown, owner = inst s, action = RemoveDismissed\<rparr>]"
  "storage (handleDismiss s) = (storage s)(dismissedKey \<mapsto> ''true'')"
  "clock (handleDismiss s) = clock s"
  "showPrompt (handleDismiss s) = False"
  by (simp_all add: handler_defs)

lemma fresh_mount_shows:
  assumes "\<not> dismissed s" and "\<not> installed s"
  shows "visible (run [BeforeInstallPrompt e, Advance 1000] (mount sa s))"
  using assms
  by (simp add: run_def visible_def advance_showPrompt handleBeforeInstallPrompt_timers
      handleBeforeInstallPrompt_frame dismissed_def installed_def)
    (simp add: handler_defs Let_def)

text \<open>The state \<open>banner_shown\<close>, field by field.\<close>

lemma banner_shown_fields:
  "mounted banner_shown" "listening banner_shown" "showPrompt banner_shown"
  "inst banner_shown = 1" "clock banner_shown = 1000" "timers banner_shown = []"
  "pending banner_shown = []" "deferredPrompt banner_shown = Some 1"
  "promptDismissed banner_shown = None" "alreadyInstalled banner_shown = None"
  "storage banner_shown = Map.empty"
  by (simp_all add: eval_defs)

subsection \<open>A dismissal followed by a reload\<close>

text \<open>
  Once the page has been reloaded after a dismissal, no timer that removes the flag is
  left: the flag stays and every later instance reads it.
\<close>

lemma dismissed_for_good_step:
  assumes "quiet s \<and> dismissed s \<and> (\<forall>tm\<in>set (timers s). action tm \<noteq> RemoveDismissed)"
  shows "quiet (step ev s) \<and> dismissed (step ev s) \<and>
         (\<forall>tm\<in>set (timers (step ev s)). action tm \<noteq> RemoveDismissed)"
proof -
  from assms have q: "quiet s" and d: "dismissed s"
    and r: "\<forall>tm\<in>set (timers s). action tm \<noteq> RemoveDismissed"
    by simp_all
  from q have nv: "\<not> visible s" by (rule quiet_not_visible)
  have a: "quiet (step ev s)"
  proof (cases "is_Mount ev")
    case False
    with q show ?thesis by (simp add: quiet_step)
  next
    case True
    then obtain sa where ev: "ev = Mount sa" by (cases ev) simp_all
    from q have "timers_known s" by (simp add: quiet_def)
    with d have "quiet (mount sa s)" by (simp add: quiet_mount)
    with q ev show ?thesis by simp
  qed
  have b: "dismissed (step ev s)"
    using d r nv
    by (cases ev)
      (auto simp add: dismissed_def handler_defs Let_def advance_storage userChoice_storage
        split: option.split)
  have c: "\<forall>tm\<in>set (timers (step ev s)). action tm \<noteq> RemoveDismissed"
    using r nv
    by (cases ev) (auto simp add: handler_defs Let_def split: option.split)
  from a b c show ?thesis by simp
qed

lemma dismissed_for_good_run:
  "quiet s \<and> dismissed s \<and> (\<forall>tm\<in>set (timers s). action tm \<noteq> RemoveDismissed) \<Longrightarrow>
   quiet (run es s) \<and> dismissed (run es s)"
  unfolding run_def
proof (induction es arbitrary: s)
  case Nil
  then show ?case by simp
next
  case (Cons ev es)
  from Cons.prems have
    "quiet (step ev s) \<and> dismissed (step ev s) \<and>
     (\<forall>tm\<in>set (timers (step ev s)). action tm \<noteq> RemoveDismissed)"
    by (rule dismissed_for_good_step)
  then show ?case using Cons.IH by simp
qed

lemma dismissal_permanent_after_reload:
  "dismissed (run es (reload (handleDismiss s))) \<and>
   \<not> visible (run es (reload (handleDismiss s)))"
proof -
  have "quiet (reload (handleDismiss s)) \<and> dismissed (reload (handleDismiss s)) \<and>
      (\<forall>tm\<in>set (timers (reload (handleDismiss s))). action tm \<noteq> RemoveDismissed)"
    by (simp add: quiet_def timers_known_def dismissed_def getItem_def reload_def
        handleDismiss_fields)
  then have "quiet (run es (reload (handleDismiss s))) \<and>
      dismissed (run es (reload (handleDismiss s)))"
    by (rule dismissed_for_good_run)
  then show ?thesis by (simp add: quiet_not_visible)
qed

text \<open>The state \<open>banner_without_signal\<close>, field by field.\<close>

lemma banner_without_signal_fields:
  "mounted banner_without_signal" "listening banner_without_signal"
  "showPrompt banner_without_signal" "inst banner_without_signal = 1"
  "clock banner_without_signal = 2000" "timers banner_without_signal = []"
  "pending banner_without_signal = []" "deferredPrompt banner_without_signal = None"
  "storage banner_without_signal = Map.empty"
  by (simp_all add: banner_without_signal_def eval_defs)

section \<open>The claims\<close>

subsection \<open>C1: an installed application and the banner\<close>

text \<open>
  C1 as stated fails. The component mounts on empty storage and event 1 arrives, which
  starts the one second timer of line 31. After 400 ms the application is installed:
  \<open>handleAppInstalled\<close> stores the flag and hides the banner, and leaves the timer alone.
  600 ms later the timer fires and the banner is on screen, with the flag set.
\<close>

theorem C1_counterexample:
  "installed (run [Mount False, BeforeInstallPrompt 1, Advance 400, AppInstalled]
      (initial Map.empty)) \<and>
   \<not> visible (run [Mount False, BeforeInstallPrompt 1, Advance 400, AppInstalled]
      (initial Map.empty)) \<and>
   installed (run [Mount False, BeforeInstallPrompt 1, Advance 400, AppInstalled, Advance 600]
      (initial Map.empty)) \<and>
   visible (run [Mount False, BeforeInstallPrompt 1, Advance 400, AppInstalled, Advance 600]
      (initial Map.empty))"
  by (simp add: eval_defs)

text \<open>
  C1, amended: in every reachable state of the page, if the persisted flag \<open>installed\<close>
  is true when the component mounts, the banner is not visible after any sequence of
  events that follows (signals, timers firing, installations, clicks, further unmounts
  and mounts, reloads).
\<close>

theorem C1_installed_at_mount_never_visible:
  assumes "installed (run es0 (initial st))"
  shows "\<not> visible (run es (mount sa (run es0 (initial st))))"
proof -
  let ?s0 = "run es0 (initial st)"
  have "quiet (mount sa ?s0)"
    using assms by (simp add: quiet_mount timers_known_reachable)
  moreover have "installed (mount sa ?s0)"
    using assms by (rule installed_mount)
  ultimately have "quiet (run es (mount sa ?s0))"
    using quiet_installed_run by blast
  then show ?thesis by (rule quiet_not_visible)
qed

theorem C1_witness:
  "installed (run [Mount False, AppInstalled, Unmount] (initial Map.empty)) \<and>
   \<not> visible (run [BeforeInstallPrompt 1, Advance 1000, Unmount, Mount False,
                   BeforeInstallPrompt 2, Advance 1000]
      (mount False (run [Mount False, AppInstalled, Unmount] (initial Map.empty))))"
proof -
  have h: "installed (run [Mount False, AppInstalled, Unmount] (initial Map.empty))"
    by (simp add: eval_defs)
  from h C1_installed_at_mount_never_visible [OF h] show ?thesis
    by (rule conjI)
qed

subsection \<open>C2: installation while the show delay is pending\<close>

text \<open>
  C2 as stated fails. Event 1 arrives and its timer is pending; the installed event
  comes 500 ms later and the timer is still in the list; 500 ms after that it fires and
  the banner is visible.
\<close>

theorem C2_counterexample:
  "timers (run [Mount False, BeforeInstallPrompt 1, Advance 500] (initial Map.empty)) =
     [\<lparr>due = 1000, owner = 1, action = ShowPrompt\<rparr>] \<and>
   timers (run [Mount False, BeforeInstallPrompt 1, Advance 500, AppInstalled]
      (initial Map.empty)) = [\<lparr>due = 1000, owner = 1, action = ShowPrompt\<rparr>] \<and>
   \<not> visible (run [Mount False, BeforeInstallPrompt 1, Advance 500, AppInstalled]
      (initial Map.empty)) \<and>
   visible (run [Mount False, BeforeInstallPrompt 1, Advance 500, AppInstalled, Advance 500]
      (initial Map.empty))"
  by (simp add: eval_defs)

text \<open>
  C2, amended: the installed event persists \<open>installed\<close> and hides the banner at once;
  it cancels nothing, the pending timers are the ones there were before.
\<close>

theorem C2_installed_event_hides_keeps_timers:
  "installed (handleAppInstalled s) \<and> \<not> visible (handleAppInstalled s) \<and>
   timers (handleAppInstalled s) = timers s"
  by (simp add: installed_def visible_def handler_defs)

theorem C2_witness:
  "installed (handleAppInstalled banner_shown) \<and> \<not> visible (handleAppInstalled banner_shown) \<and>
   timers (handleAppInstalled banner_shown) = []"
  using C2_installed_event_hides_keeps_timers [of banner_shown]
  by (simp add: banner_shown_fields)

subsection \<open>C3: a dismissal and later signals\<close>

text \<open>
  C3 as stated fails, in two ways. In the first run the banner comes up at 1000 ms and
  the user dismisses it, which stores the flag. Event 2 arrives in the same mount: the
  handler tests the value read at mount, which is still \<open>null\<close>, and starts a timer. At
  2000 ms, one second after the dismissal, the flag is set and the banner is visible.
  In the second run event 2 arrives at 900 ms, before the dismissal at 1000 ms; its timer
  is not cancelled by the dismissal and brings the banner up at 1900 ms.
\<close>

theorem C3_counterexample:
  "clock (run [Mount False, BeforeInstallPrompt 1, Advance 1000, DismissClick]
      (initial Map.empty)) = 1000 \<and>
   dismissed (run [Mount False, BeforeInstallPrompt 1, Advance 1000, DismissClick]
      (initial Map.empty)) \<and>
   \<not> visible (run [Mount False, BeforeInstallPrompt 1, Advance 1000, DismissClick]
      (initial Map.empty)) \<and>
   clock (run [Mount False, BeforeInstallPrompt 1, Advance 1000, DismissClick,
               BeforeInstallPrompt 2, Advance 1000] (initial Map.empty)) = 2000 \<and>
   dismissed (run [Mount False, BeforeInstallPrompt 1, Advance 1000, DismissClick,
               BeforeInstallPrompt 2, Advance 1000] (initial Map.empty)) \<and>
   visible (run [Mount False, BeforeInstallPrompt 1, Advance 1000, DismissClick,
               BeforeInstallPrompt 2, Advance 1000] (initial Map.empty)) \<and>
   clock (run [Mount False, BeforeInstallPrompt 1, Advance 900, BeforeInstallPrompt 2,
               Advance 100, DismissClick] (initial Map.empty)) = 1000 \<and>
   dismissed (run [Mount False, BeforeInstallPrompt 1, Advance 900, BeforeInstallPrompt 2,
               Advance 100, DismissClick] (initial Map.empty)) \<and>
   clock (run [Mount False, BeforeInstallPrompt 1, Advance 900, BeforeInstallPrompt 2,
               Advance 100, DismissClick, Advance 900] (initial Map.empty)) = 1900 \<and>
   dismissed (run [Mount False, BeforeInstallPrompt 1, Advance 900, BeforeInstallPrompt 2,
               Advance 100, DismissClick, Advance 900] (initial Map.empty)) \<and>
   visible (run [Mount False, BeforeInstallPrompt 1, Advance 900, BeforeInstallPrompt 2,
               Advance 100, DismissClick, Advance 900] (initial Map.empty))"
  by (simp add: eval_defs)

text \<open>
  C3, amended: in every reachable state of the page, if the persisted flag \<open>dismissed\<close>
  is true when the component mounts, the banner is not visible at any time during that
  mount, whatever signals and other events arrive.
\<close>

theorem C3_dismissed_at_mount_never_visible:
  assumes "dismissed (run es0 (initial st))" and "\<forall>ev\<in>set es. \<not> is_Mount ev"
  shows "\<not> visible (run es (mount sa (run es0 (initial st))))"
proof -
  let ?s0 = "run es0 (initial st)"
  have "quiet (mount sa ?s0)"
    using assms(1) by (simp add: quiet_mount timers_known_reachable)
  then have "quiet (run es (mount sa ?s0))"
    using assms(2) by (rule quiet_run)
  then show ?thesis by (rule quiet_not_visible)
qed

theorem C3_witness:
  "dismissed (run [Mount False, BeforeInstallPrompt 1, Advance 1000, DismissClick, Unmount]
      (initial Map.empty)) \<and>
   \<not> visible (run [BeforeInstallPrompt 2, Advance 1000, BeforeInstallPrompt 3, Advance 5000]
      (mount False
        (run [Mount False, BeforeInstallPrompt 1, Advance 1000, DismissClick, Unmount]
          (initial Map.empty))))"
proof -
  have h: "dismissed (run [Mount False, BeforeInstallPrompt 1, Advance 1000, DismissClick,
      Unmount] (initial Map.empty))"
    by (simp add: eval_defs)
  have k: "\<forall>ev\<in>set [BeforeInstallPrompt 2, Advance 1000, BeforeInstallPrompt 3, Advance 5000].
      \<not> is_Mount ev"
    by simp
  from h C3_dismissed_at_mount_never_visible [OF h k] show ?thesis
    by (rule conjI)
qed

subsection \<open>C4: the end of the cooldown\<close>

text \<open>
  C4: the flag \<open>dismissed\<close> is to be cleared 7 days after the dismissal, restarts
  included, so that a later signal brings the banner back; the comment of line 91 says
  the same, \<open>Show again after 7 days\<close>. The code does not do it on this run: the user
  dismisses the banner at 1000 ms, which stores the flag and starts the timer of line 92,
  due at 604801000 ms; the page is reloaded, which drops the timer, and the component
  mounts again. When the 7 days have passed the flag is still stored, and the signal that
  arrives then brings up no banner, although the application is not installed.
\<close>

theorem C4_reload_loses_cooldown:
  "clock (run [Mount False, BeforeInstallPrompt 1, Advance 1000, DismissClick]
      (initial Map.empty)) = 1000 \<and>
   timers (run [Mount False, BeforeInstallPrompt 1, Advance 1000, DismissClick]
      (initial Map.empty)) = [\<lparr>due = 604801000, owner = 1, action = RemoveDismissed\<rparr>] \<and>
   timers (run [Mount False, BeforeInstallPrompt 1, Advance 1000, DismissClick, Reload]
      (initial Map.empty)) = [] \<and>
   clock (run [Mount False, BeforeInstallPrompt 1, Advance 1000, DismissClick, Reload,
               Mount False, Advance 604800000] (initial Map.empty)) = 604801000 \<and>
   dismissed (run [Mount False, BeforeInstallPrompt 1, Advance 1000, DismissClick, Reload,
               Mount False, Advance 604800000] (initial Map.empty)) \<and>
   \<not> installed (run [Mount False, BeforeInstallPrompt 1, Advance 1000, DismissClick, Reload,
               Mount False, Advance 604800000, BeforeInstallPrompt 2, Advance 1000]
      (initial Map.empty)) \<and>
   dismissed (run [Mount False, BeforeInstallPrompt 1, Advance 1000, DismissClick, Reload,
               Mount False, Advance 604800000, BeforeInstallPrompt 2, Advance 1000]
      (initial Map.empty)) \<and>
   \<not> visible (run [Mount False, BeforeInstallPrompt 1, Advance 1000, DismissClick, Reload,
               Mount False, Advance 604800000, BeforeInstallPrompt 2, Advance 1000]
      (initial Map.empty))"
  by (simp add: eval_defs)

subsection \<open>C5: one signal at most, cleared once consumed\<close>

text \<open>
  C5: the component holds at most one signal, \<open>deferredPrompt\<close> being one event or
  \<open>null\<close>. A new event \<open>e'\<close> takes the place of whatever was held. When the install
  button is clicked while event \<open>e\<close> is held and the \<open>userChoice\<close> of \<open>e\<close> resolves
  later, after any events \<open>es\<close> that leave the wait standing, the instance that clicked
  holds no signal any more, whatever the outcome.
\<close>

theorem C5_single_signal_cleared_after_prompt:
  assumes "deferredPrompt s = Some e" and "\<forall>ev\<in>set es. \<not> ends_wait e ev"
  shows "deferredPrompt (handleBeforeInstallPrompt e' s) = Some e' \<and>
         held_by (inst s) (step (UserChoice e outcome) (run es (handleInstallClick s))) = None"
proof -
  have "(inst s, e) \<in> set (pending (run es (handleInstallClick s)))"
    using assms by (rule suspended)
  then have "held_by (inst s) (userChoice e outcome (run es (handleInstallClick s))) = None"
    by (simp add: held_by_def userChoice_deferredPrompt)
  then show ?thesis by (simp add: handleBeforeInstallPrompt_frame)
qed

theorem C5_witness:
  "deferredPrompt banner_shown = Some 1 \<and>
   deferredPrompt (handleBeforeInstallPrompt 2 banner_shown) = Some 2 \<and>
   held_by (inst banner_shown)
     (step (UserChoice 1 ''dismissed'')
       (run [BeforeInstallPrompt 2, Advance 10] (handleInstallClick banner_shown))) = None \<and>
   mounted (step (UserChoice 1 ''dismissed'')
       (run [BeforeInstallPrompt 2, Advance 10] (handleInstallClick banner_shown))) \<and>
   inst (step (UserChoice 1 ''dismissed'')
       (run [BeforeInstallPrompt 2, Advance 10] (handleInstallClick banner_shown))) =
     inst banner_shown"
proof -
  have h: "deferredPrompt banner_shown = Some 1"
    by (simp add: banner_shown_fields)
  have k: "\<forall>ev\<in>set [BeforeInstallPrompt 2, Advance 10]. \<not> ends_wait 1 ev"
    by simp
  have m: "mounted (step (UserChoice 1 ''dismissed'')
       (run [BeforeInstallPrompt 2, Advance 10] (handleInstallClick banner_shown))) \<and>
     inst (step (UserChoice 1 ''dismissed'')
       (run [BeforeInstallPrompt 2, Advance 10] (handleInstallClick banner_shown))) =
     inst banner_shown"
    by (simp add: run_def banner_shown_fields handleBeforeInstallPrompt_frame
        handleInstallClick_def emit_def)
  from h m C5_single_signal_cleared_after_prompt [OF h k, of 2 "''dismissed''"]
  show ?thesis by blast
qed

subsection \<open>C6: the outcome of the native prompt\<close>

text \<open>
  C6: the install button is clicked while event \<open>e\<close> is held, and the \<open>userChoice\<close> of
  \<open>e\<close> resolves after any events \<open>es\<close> that leave the wait standing. Then the banner of
  the instance that clicked is not on screen. With the outcome \<open>accepted\<close> the flag
  \<open>installed\<close> is stored; with any other outcome the resolution writes nothing to the
  storage, and the click itself wrote nothing either, so \<open>installed\<close> stays as it was.
\<close>

theorem C6_outcome_of_prompt:
  assumes "deferredPrompt s = Some e" and "\<forall>ev\<in>set es. \<not> ends_wait e ev"
  shows "\<not> visible_of (inst s) (step (UserChoice e outcome) (run es (handleInstallClick s))) \<and>
         (outcome = ''accepted'' \<longrightarrow>
            installed (step (UserChoice e outcome) (run es (handleInstallClick s)))) \<and>
         (outcome \<noteq> ''accepted'' \<longrightarrow>
            storage (step (UserChoice e outcome) (run es (handleInstallClick s))) =
              storage (run es (handleInstallClick s))) \<and>
         storage (handleInstallClick s) = storage s"
proof -
  let ?s2 = "run es (handleInstallClick s)"
  have p: "(inst s, e) \<in> set (pending ?s2)"
    using assms by (rule suspended)
  have a: "\<not> visible_of (inst s) (userChoice e outcome ?s2)"
    using p by (simp add: visible_of_def userChoice_showPrompt)
  have b: "outcome = ''accepted'' \<longrightarrow> installed (userChoice e outcome ?s2)"
    using p by (auto simp add: installed_def getItem_def userChoice_storage)
  have c: "outcome \<noteq> ''accepted'' \<longrightarrow> storage (userChoice e outcome ?s2) = storage ?s2"
    by (simp add: userChoice_storage)
  have d: "storage (handleInstallClick s) = storage s"
    by (simp add: handleInstallClick_def emit_def split: option.split)
  from a b c d show ?thesis by simp
qed

theorem C6_witness:
  "visible banner_shown \<and> \<not> installed banner_shown \<and>
   \<not> visible (step (UserChoice 1 ''accepted'') (run [] (handleInstallClick banner_shown))) \<and>
   installed (step (UserChoice 1 ''accepted'') (run [] (handleInstallClick banner_shown))) \<and>
   \<not> visible (step (UserChoice 1 ''dismissed'') (run [] (handleInstallClick banner_shown))) \<and>
   \<not> installed (step (UserChoice 1 ''dismissed'') (run [] (handleInstallClick banner_shown)))"
proof -
  have h: "deferredPrompt banner_shown = Some 1"
    by (simp add: banner_shown_fields)
  have k: "\<forall>ev\<in>set []. \<not> ends_wait 1 ev"
    by simp
  have v: "visible banner_shown \<and> \<not> installed banner_shown"
    by (simp add: visible_def installed_def getItem_def banner_shown_fields)
  have i: "\<And>outcome. inst (step (UserChoice 1 outcome) (run [] (handleInstallClick banner_shown))) =
      inst banner_shown"
    by (simp add: run_def handleInstallClick_def emit_def banner_shown_fields)
  have st: "storage (run [] (handleInstallClick banner_shown)) = Map.empty"
    by (simp add: run_def handleInstallClick_def emit_def banner_shown_fields)
  from C6_outcome_of_prompt [OF h k, of "''accepted''"] i
  have acc: "\<not> visible (step (UserChoice 1 ''accepted'') (run [] (handleInstallClick banner_shown))) \<and>
      installed (step (UserChoice 1 ''accepted'') (run [] (handleInstallClick banner_shown)))"
    by (simp add: visible_of_def visible_def)
  from C6_outcome_of_prompt [OF h k, of "''dismissed''"] i st
  have dis: "\<not> visible (step (UserChoice 1 ''dismissed'') (run [] (handleInstallClick banner_shown))) \<and>
      \<not> installed (step (UserChoice 1 ''dismissed'') (run [] (handleInstallClick banner_shown)))"
    by (simp add: visible_of_def visible_def installed_def getItem_def)
  from v acc dis show ?thesis by blast
qed

subsection \<open>C7: the install button without a signal\<close>

text \<open>
  C7: when the install button is clicked while no signal is held, the handler shows the
  alert with the manual instructions and changes nothing else: the storage, the banner,
  the held signal, the timers and the suspended continuations are what they were.
\<close>

theorem C7_fallback_changes_nothing:
  "deferredPrompt s = None \<Longrightarrow>
   handleInstallClick s = s\<lparr>effects := effects s @ [Alert manual_install_instructions]\<rparr>"
  by (simp add: handleInstallClick_def emit_def)

theorem C7_witness:
  "visible banner_without_signal \<and>
   deferredPrompt banner_without_signal = None \<and>
   step InstallClick banner_without_signal =
     banner_without_signal\<lparr>effects := effects banner_without_signal @
        [Alert manual_install_instructions]\<rparr> \<and>
   visible (step InstallClick banner_without_signal) \<and>
   deferredPrompt (step InstallClick banner_without_signal) = None \<and>
   storage (step InstallClick banner_without_signal) = storage banner_without_signal \<and>
   timers (step InstallClick banner_without_signal) = timers banner_without_signal \<and>
   pending (step InstallClick banner_without_signal) = pending banner_without_signal"
proof -
  have h: "deferredPrompt banner_without_signal = None"
    by (simp add: banner_without_signal_fields)
  have v: "visible banner_without_signal"
    by (simp add: visible_def banner_without_signal_fields)
  from v C7_fallback_changes_nothing [OF h]
  have e: "step InstallClick banner_without_signal =
     banner_without_signal\<lparr>effects := effects banner_without_signal @
        [Alert manual_install_instructions]\<rparr>"
    by simp
  from h v e show ?thesis
    by (simp add: visible_def)
qed

subsection \<open>C8: teardown and the timers\<close>

text \<open>
  C8 as stated fails. The user dismisses the banner at 1000 ms, event 2 arrives and the
  component is unmounted. Both timers are still pending after the cleanup, and seven days
  later the one of line 92 runs and removes the flag from the storage.
\<close>

theorem C8_counterexample:
  "\<not> mounted (run [Mount False, BeforeInstallPrompt 1, Advance 1000, DismissClick,
                  BeforeInstallPrompt 2, Unmount] (initial Map.empty)) \<and>
   timers (run [Mount False, BeforeInstallPrompt 1, Advance 1000, DismissClick,
                BeforeInstallPrompt 2, Unmount] (initial Map.empty)) =
     [\<lparr>due = 604801000, owner = 1, action = RemoveDismissed\<rparr>,
      \<lparr>due = 2000, owner = 1, action = ShowPrompt\<rparr>] \<and>
   dismissed (run [Mount False, BeforeInstallPrompt 1, Advance 1000, DismissClick,
                   BeforeInstallPrompt 2, Unmount] (initial Map.empty)) \<and>
   \<not> dismissed (run [Mount False, BeforeInstallPrompt 1, Advance 1000, DismissClick,
                     BeforeInstallPrompt 2, Unmount, Advance 604800000] (initial Map.empty))"
  by (simp add: eval_defs)

text \<open>
  C8, amended: when the component is torn down its two listeners are removed, so that
  installability and installed events no longer reach it, and no banner is on screen
  however much time passes; the timers are not cancelled, they are the ones there were
  before.
\<close>

theorem C8_teardown_removes_listeners_only:
  "timers (unmount s) = timers s \<and> \<not> listening (unmount s) \<and>
   step (BeforeInstallPrompt e) (unmount s) = unmount s \<and>
   step AppInstalled (unmount s) = unmount s \<and>
   \<not> visible (advance d (unmount s))"
  by (simp add: unmount_def useEffect_cleanup_def visible_def)

theorem C8_witness:
  "timers (unmount (handleDismiss banner_shown)) =
     [\<lparr>due = 604801000, owner = 1, action = RemoveDismissed\<rparr>] \<and>
   \<not> listening (unmount (handleDismiss banner_shown)) \<and>
   step (BeforeInstallPrompt 2) (unmount (handleDismiss banner_shown)) =
     unmount (handleDismiss banner_shown) \<and>
   step AppInstalled (unmount (handleDismiss banner_shown)) =
     unmount (handleDismiss banner_shown) \<and>
   \<not> visible (advance 604800000 (unmount (handleDismiss banner_shown)))"
  using C8_teardown_removes_listeners_only [of "handleDismiss banner_shown" 2 604800000]
  by (simp add: handleDismiss_fields banner_shown_fields cooldown_ms)

subsection \<open>C9: the delay before the banner\<close>

text \<open>
  C9 as stated fails. The user dismisses the banner at 1000 ms, the component is
  unmounted and mounted again, and reads the flag. Seven days later the timer of line 92
  removes the flag. Event 2 then arrives while both persisted flags are false, and the
  handler, which tests the value read at mount, starts no timer: the banner does not
  come up.
\<close>

theorem C9_counterexample:
  "listening (run [Mount False, BeforeInstallPrompt 1, Advance 1000, DismissClick, Unmount,
                   Mount False, Advance 604800000] (initial Map.empty)) \<and>
   \<not> installed (run [Mount False, BeforeInstallPrompt 1, Advance 1000, DismissClick, Unmount,
                     Mount False, Advance 604800000] (initial Map.empty)) \<and>
   \<not> dismissed (run [Mount False, BeforeInstallPrompt 1, Advance 1000, DismissClick, Unmount,
                     Mount False, Advance 604800000] (initial Map.empty)) \<and>
   timers (run [Mount False, BeforeInstallPrompt 1, Advance 1000, DismissClick, Unmount,
                Mount False, Advance 604800000, BeforeInstallPrompt 2]
      (initial Map.empty)) = [] \<and>
   \<not> visible (run [Mount False, BeforeInstallPrompt 1, Advance 1000, DismissClick, Unmount,
                   Mount False, Advance 604800000, BeforeInstallPrompt 2, Advance 1000]
      (initial Map.empty))"
  by (simp add: eval_defs)

text \<open>
  C9, amended: when an installability signal arrives and the values of \<open>installed\<close> and
  \<open>dismissed\<close> that the component read at mount are both false, a timer is started that
  is due exactly 1000 ms later. Once 1000 ms or more have passed the banner of a mounted
  component is visible, and before that the timer changes nothing: the banner is visible
  exactly if it would have been without the signal.
\<close>

theorem C9_show_after_one_second:
  assumes "\<not> truthy (promptDismissed s)" and "\<not> truthy (alreadyInstalled s)"
  shows "timers (handleBeforeInstallPrompt e s) =
           timers s @ [\<lparr>due = clock s + 1000, owner = inst s, action = ShowPrompt\<rparr>] \<and>
         (mounted s \<and> 1000 \<le> d \<longrightarrow> visible (advance d (handleBeforeInstallPrompt e s))) \<and>
         (d < 1000 \<longrightarrow>
            visible (advance d (handleBeforeInstallPrompt e s)) = visible (advance d s))"
  using assms
  by (auto simp add: handleBeforeInstallPrompt_timers handleBeforeInstallPrompt_frame
      visible_def advance_showPrompt)

theorem C9_witness:
  "\<not> truthy (promptDismissed (mount False (initial Map.empty))) \<and>
   \<not> truthy (alreadyInstalled (mount False (initial Map.empty))) \<and>
   timers (handleBeforeInstallPrompt 1 (mount False (initial Map.empty))) =
     [\<lparr>due = 1000, owner = 1, action = ShowPrompt\<rparr>] \<and>
   visible (advance 1000 (handleBeforeInstallPrompt 1 (mount False (initial Map.empty)))) \<and>
   \<not> visible (advance 999 (handleBeforeInstallPrompt 1 (mount False (initial Map.empty))))"
proof -
  let ?s = "mount False (initial Map.empty)"
  have h: "\<not> truthy (promptDismissed ?s)"
    by (simp add: eval_defs)
  have k: "\<not> truthy (alreadyInstalled ?s)"
    by (simp add: eval_defs)
  have f: "mounted ?s" "timers ?s = []" "clock ?s = 0" "inst ?s = 1"
    by (simp_all add: eval_defs)
  have n: "\<not> visible (advance 999 ?s)"
    by (simp add: eval_defs)
  from C9_show_after_one_second [OF h k, of 1 1000] f
  have a: "timers (handleBeforeInstallPrompt 1 ?s) =
      [\<lparr>due = 1000, owner = 1, action = ShowPrompt\<rparr>] \<and>
      visible (advance 1000 (handleBeforeInstallPrompt 1 ?s))"
    by simp
  from C9_show_after_one_second [OF h k, of 1 999] n
  have b: "\<not> visible (advance 999 (handleBeforeInstallPrompt 1 ?s))"
    by simp
  from h k a b show ?thesis by blast
qed

subsection \<open>C10: the flags are read once, at mount\<close>

text \<open>
  C10: whether the handler starts the show timer for a signal is decided by the two
  values the storage held when the component mounted. Whatever events follow the mount,
  short of another mount (dismissals, accepted prompts, installed events, timers), and
  whether or not the display-mode check of the mount wrote \<open>installed\<close>, the handler
  starts the timer if both values were false at mount and starts none otherwise.
\<close>

theorem C10_eligibility_read_at_mount:
  assumes "\<forall>ev\<in>set es. \<not> is_Mount ev"
  shows "timers (handleBeforeInstallPrompt e (run es (mount sa s0))) =
           (if \<not> truthy (getItem dismissedKey s0) \<and> \<not> truthy (getItem installedKey s0)
            then timers (run es (mount sa s0)) @
                   [\<lparr>due = clock (run es (mount sa s0)) + 1000,
                     owner = inst (run es (mount sa s0)), action = ShowPrompt\<rparr>]
            else timers (run es (mount sa s0)))"
  using snapshot_run [OF assms, of "mount sa s0"]
  by (simp add: handleBeforeInstallPrompt_timers snapshot_mount)

theorem C10_witness:
  "installed (run [BeforeInstallPrompt 1, Advance 1000, DismissClick, AppInstalled]
      (mount True (initial Map.empty))) \<and>
   dismissed (run [BeforeInstallPrompt 1, Advance 1000, DismissClick, AppInstalled]
      (mount True (initial Map.empty))) \<and>
   listening (run [BeforeInstallPrompt 1, Advance 1000, DismissClick, AppInstalled]
      (mount True (initial Map.empty))) \<and>
   timers (handleBeforeInstallPrompt 2
      (run [BeforeInstallPrompt 1, Advance 1000, DismissClick, AppInstalled]
        (mount True (initial Map.empty)))) =
     [\<lparr>due = 604801000, owner = 1, action = RemoveDismissed\<rparr>,
      \<lparr>due = 2000, owner = 1, action = ShowPrompt\<rparr>]"
proof -
  let ?s = "run [BeforeInstallPrompt 1, Advance 1000, DismissClick, AppInstalled]
      (mount True (initial Map.empty))"
  have k: "\<forall>ev\<in>set [BeforeInstallPrompt 1, Advance 1000, DismissClick, AppInstalled].
      \<not> is_Mount ev"
    by simp
  have f: "installed ?s" "dismissed ?s" "listening ?s" "clock ?s = 1000" "inst ?s = 1"
    "timers ?s = [\<lparr>due = 604801000, owner = 1, action = RemoveDismissed\<rparr>]"
    by (simp_all add: eval_defs)
  have g: "getItem dismissedKey (initial Map.empty) = None"
    "getItem installedKey (initial Map.empty) = None"
    by (simp_all add: getItem_def initial_def)
  from C10_eligibility_read_at_mount [OF k, of 2 True "initial Map.empty"] f g
  show ?thesis by simp
qed

end
